theory Spec2Isabelle
  imports Complex_Main
begin

section \<open>JavaScript numbers\<close>

text \<open>
  Amounts are JavaScript numbers. A finite number is modelled by the rational it denotes
  and \<open>NaN\<close> is kept as a value of its own, since \<open>undefined\<close> operands produce it
  and it absorbs every later addition. The rounding error of doubles and the two
  infinities are not modelled: the value of a sum is stated below only where double
  addition is exact, and elsewhere the arithmetic enters the comparisons with 0 that the
  routes make.
\<close>

datatype jsnum = Num rat | NaN

fun js_add :: "jsnum \<Rightarrow> jsnum \<Rightarrow> jsnum" where
  "js_add (Num a) (Num b) = Num (a + b)"
| "js_add _ _ = NaN"

fun js_mul :: "jsnum \<Rightarrow> jsnum \<Rightarrow> jsnum" where
  "js_mul (Num a) (Num b) = Num (a * b)"
| "js_mul _ _ = NaN"

text \<open>\<open>a <= b\<close> and \<open>a > b\<close>: every comparison with \<open>NaN\<close> is false.\<close>

fun js_le :: "jsnum \<Rightarrow> jsnum \<Rightarrow> bool" where
  "js_le (Num a) (Num b) = (a \<le> b)"
| "js_le _ _ = False"

fun js_gt :: "jsnum \<Rightarrow> jsnum \<Rightarrow> bool" where
  "js_gt (Num a) (Num b) = (b < a)"
| "js_gt _ _ = False"

text \<open>Truthiness of a number: \<open>0\<close> and \<open>NaN\<close> are falsy.\<close>

fun truthy_num :: "jsnum \<Rightarrow> bool" where
  "truthy_num (Num a) = (a \<noteq> 0)"
| "truthy_num NaN = False"

text \<open>\<open>x || 0\<close> on a number.\<close>

definition or_zero :: "jsnum \<Rightarrow> jsnum" where
  "or_zero x = (if truthy_num x then x else Num 0)"

text \<open>\<open>Math.round\<close>: the nearest integer, halves rounded up.\<close>

fun math_round :: "jsnum \<Rightarrow> jsnum" where
  "math_round (Num a) = Num (of_int \<lfloor>a + 1 / 2\<rfloor>)"
| "math_round NaN = NaN"

text \<open>Reading a numeric field that may be absent: \<open>undefined\<close> converts to \<open>NaN\<close>
  in arithmetic.\<close>

fun to_number :: "jsnum option \<Rightarrow> jsnum" where
  "to_number None = NaN"
| "to_number (Some x) = x"

text \<open>Reading a value that is known to be present.\<close>

fun the_default :: "'a \<Rightarrow> 'a option \<Rightarrow> 'a" where
  "the_default x None = x"
| "the_default x (Some y) = y"

text \<open>Truthiness of a string that may be \<open>undefined\<close>: absent and empty are falsy.\<close>

fun falsy :: "string option \<Rightarrow> bool" where
  "falsy None = True"
| "falsy (Some s) = (s = [])"

section \<open>Documents\<close>

text \<open>The \<open>status\<close> field: the routes write and compare the four literals
  \<open>'pending'\<close>, \<open>'paid'\<close>, \<open>'failed'\<close> and \<open>'cancelled'\<close> only.\<close>

datatype status = Pending | Paid | Failed | Cancelled

text \<open>
  The fields a route hands to \<open>PaymentService.create\<close>. The lease-keyed create route
  fills \<open>leaseId\<close>, \<open>amount\<close> and \<open>type\<close>; the landlord create route fills
  \<open>totalAmount\<close> and its components, \<open>description\<close> and \<open>isFirstPayment\<close>. A field
  a route does not pass is absent from the stored document (\<open>None\<close>).
\<close>

record payment_data =
  leaseId :: "string option"
  tenantId :: string
  landlordId :: string
  propertyId :: string
  amount :: "jsnum option"
  totalAmount :: "jsnum option"
  rentAmount :: "jsnum option"
  utilitiesAmount :: "jsnum option"
  depositAmount :: "jsnum option"
  currency :: string
  ptype :: "string option"
  period :: string
  description :: "string option"
  isFirstPayment :: "bool option"

text \<open>A stored payment document: the data above and the fields \<open>create\<close> adds.
  Instants are natural numbers.\<close>

record payment = payment_data +
  status :: status
  stripePaymentIntentId :: "string option"
  stripeChargeId :: "string option"
  createdAt :: nat
  paidAt :: "nat option"

text \<open>A lease document, with the fields the lease-keyed create route reads. The route
  that writes leases stores \<open>monthlyRent\<close> as a number and may leave
  \<open>securityDeposit\<close> out.\<close>

record lease =
  lease_tenantId :: string
  lease_landlordId :: string
  lease_propertyId :: string
  lease_status :: string
  monthlyRent :: jsnum
  securityDeposit :: "jsnum option"

text \<open>The document store: the \<open>payments\<close> and \<open>leases\<close> collections, each a list of
  documents with their ids.\<close>

record db =
  payments :: "(string \<times> payment) list"
  leases :: "(string \<times> lease) list"

text \<open>\<open>doc(id).set(data)\<close>: replaces the document, or adds it.\<close>

fun doc_set :: "string \<Rightarrow> payment \<Rightarrow> (string \<times> payment) list \<Rightarrow> (string \<times> payment) list" where
  "doc_set k v [] = [(k, v)]"
| "doc_set k v ((k', v') # ps) = (if k' = k then (k, v) # ps else (k', v') # doc_set k v ps)"

text \<open>\<open>doc(id).update(fields)\<close>: merges the fields into an existing document and is
  rejected when the document does not exist or the id is \<open>undefined\<close>.\<close>

datatype thrown = Thrown

fun doc_merge :: "string \<Rightarrow> (payment \<Rightarrow> payment) \<Rightarrow> (string \<times> payment) list \<Rightarrow> (string \<times> payment) list" where
  "doc_merge k f [] = []"
| "doc_merge k f ((k', v') # ps) = (if k' = k then (k', f v') # ps else (k', v') # doc_merge k f ps)"

definition doc_update :: "string option \<Rightarrow> (payment \<Rightarrow> payment) \<Rightarrow> db \<Rightarrow> thrown + db" where
  "doc_update paymentId f d =
     (case paymentId of
        None \<Rightarrow> Inl Thrown
      | Some k \<Rightarrow>
          (case map_of (payments d) k of
             None \<Rightarrow> Inl Thrown
           | Some p \<Rightarrow> Inr (d\<lparr>payments := doc_merge k f (payments d)\<rparr>)))"

section \<open>The payment processor\<close>

text \<open>
  The processor is outside the repository. Each of its three calls is a function from
  the arguments the code passes to what the call yields: \<open>Inl\<close> a thrown error's
  message, \<open>Inr\<close> the returned object. \<open>charges\<close> holds the ids of
  \<open>charges.data\<close>, \<open>None\<close> when the intent carries no \<open>charges\<close>;
  \<open>metadata_paymentId\<close> is \<open>metadata.paymentId\<close>.
\<close>

record intent =
  intent_id :: string
  intent_status :: string
  client_secret :: string
  charges :: "string list option"
  metadata_paymentId :: "string option"

record intent_request =
  ir_amount :: jsnum
  ir_currency :: string
  ir_metadata :: "(string \<times> string) list"

record event =
  event_type :: string
  event_object :: intent

record gateway =
  paymentIntents_create :: "intent_request \<Rightarrow> string + intent"
  paymentIntents_retrieve :: "string \<Rightarrow> string + intent"
  constructEvent :: "string \<Rightarrow> string option \<Rightarrow> string option \<Rightarrow> string + event"

text \<open>The charge id both reconciliation paths extract: \<open>charges.data[0].id\<close> when
  \<open>charges.data\<close> is non-empty, \<open>null\<close> otherwise.\<close>

fun first_charge :: "string list option \<Rightarrow> string option" where
  "first_charge (Some (c # cs)) = Some c"
| "first_charge _ = None"

section \<open>HTTP replies\<close>

datatype body =
    Error string
  | ErrorText string
  | PaymentCreated string string
  | RequestCreated string string "string \<times> payment"
  | ClientSecret string string
  | SyncReport string status bool
  | Message string
  | Received

type_synonym reply = "nat \<times> body"

section \<open>PaymentService\<close>

text \<open>\<open>create\<close>: the new document's id is generated by the store and is a parameter
  here, as is the clock's reading.\<close>

definition create :: "nat \<Rightarrow> string \<Rightarrow> payment_data \<Rightarrow> db \<Rightarrow> (string \<times> payment) \<times> db" where
  "create now newId paymentData d =
     (let payment = payment_data.extend paymentData (payment.fields Pending None None now None)
      in ((newId, payment), d\<lparr>payments := doc_set newId payment (payments d)\<rparr>))"

definition getById :: "db \<Rightarrow> string \<Rightarrow> payment option" where
  "getById d paymentId = map_of (payments d) paymentId"


text \<open>\<open>updateStatus(paymentId, status, extraData)\<close>: \<open>extraData\<close> is either \<open>{}\<close>
  (\<open>None\<close>) or \<open>{stripeChargeId: c}\<close> (\<open>Some c\<close>); \<open>paidAt\<close> is stamped when the new
  status is \<open>paid\<close>.\<close>

definition updateData :: "nat \<Rightarrow> status \<Rightarrow> string option option \<Rightarrow> payment \<Rightarrow> payment" where
  "updateData now s extraData p =
     (let p1 = p\<lparr>status := s\<rparr>;
          p2 = (case extraData of None \<Rightarrow> p1 | Some c \<Rightarrow> p1\<lparr>stripeChargeId := c\<rparr>)
      in if s = Paid then p2\<lparr>paidAt := Some now\<rparr> else p2)"

definition updateStatus ::
  "nat \<Rightarrow> string option \<Rightarrow> status \<Rightarrow> string option option \<Rightarrow> db \<Rightarrow> thrown + db" where
  "updateStatus now paymentId s extraData d = doc_update paymentId (updateData now s extraData) d"

definition updateStripeIntentId :: "string \<Rightarrow> string \<Rightarrow> db \<Rightarrow> thrown + db" where
  "updateStripeIntentId paymentId iid d =
     doc_update (Some paymentId) (\<lambda>p. p\<lparr>stripePaymentIntentId := Some iid\<rparr>) d"

text \<open>\<open>getLandlordStats\<close>. \<open>thisMonth\<close> tells whether an instant lies in the current
  calendar month.\<close>

record stats =
  total :: nat
  pending :: nat
  paid :: nat
  failed :: nat
  totalRevenue :: jsnum
  pendingAmount :: jsnum
  thisMonthRevenue :: jsnum



section \<open>Routes\<close>

text \<open>
  Every route is a function of the verified identity \<open>userId\<close> the auth middleware
  supplies, the request and the store; it returns the reply and the store it leaves.
  A thrown error inside a route's \<open>try\<close> block becomes its \<open>500\<close> reply, and the
  writes made before it stay. The store itself is taken to be reachable.
\<close>

text \<open>The test \<open>/^\d{4}-\d{2}$/\<close>.\<close>

definition digit :: "char \<Rightarrow> bool" where
  "digit c = (c \<in> set ''0123456789'')"

fun period_format :: "string \<Rightarrow> bool" where
  "period_format [a, b, c, e, h, m, n] =
     (digit a \<and> digit b \<and> digit c \<and> digit e \<and> h = CHR ''-'' \<and> digit m \<and> digit n)"
| "period_format _ = False"

subsection \<open>The lease-keyed variant\<close>




subsection \<open>The landlord-request variant\<close>

definition hasExistingPayments :: "db \<Rightarrow> string \<Rightarrow> string \<Rightarrow> bool" where
  "hasExistingPayments d tid pid =
     (take 1 (filter (\<lambda>(k, p). tenantId p = tid \<and> propertyId p = pid
               \<and> status p \<in> set [Paid, Pending]) (payments d)) \<noteq> [])"

text \<open>
  \<open>POST /create\<close>. The three amount fields of the body are given as the numbers
  \<open>parseFloat\<close> reads from them (\<open>NaN\<close> when it reads none).
\<close>

record create_body =
  b_tenantId :: "string option"
  b_propertyId :: "string option"
  b_period :: "string option"
  b_rentAmount :: jsnum
  b_utilitiesAmount :: jsnum
  b_depositAmount :: jsnum
  b_description :: "string option"

definition create_request ::
  "nat \<Rightarrow> string \<Rightarrow> string \<Rightarrow> create_body \<Rightarrow> db \<Rightarrow> reply \<times> db" where
  "create_request now newId userId b d =
     (if falsy (b_tenantId b) \<or> falsy (b_propertyId b) \<or> falsy (b_period b) then
        ((400, Error ''Missing required fields: tenantId, propertyId, period''), d)
      else
        (case (b_tenantId b, b_propertyId b, b_period b) of
           (Some tid, Some pid, Some per) \<Rightarrow>
             (let rent = or_zero (b_rentAmount b);
                  utilities = or_zero (b_utilitiesAmount b);
                  deposit = or_zero (b_depositAmount b)
              in if js_le rent (Num 0) \<and> js_le utilities (Num 0) \<and> js_le deposit (Num 0) then
                   ((400, Error ''At least one payment amount (rent, utilities, or deposit) must be greater than 0''), d)
                 else if \<not> period_format per then
                   ((400, Error ''Invalid period format. Use YYYY-MM''), d)
                 else
                   (let hasPayments = hasExistingPayments d tid pid in
                    if hasPayments \<and> js_gt deposit (Num 0) then
                      ((400, Error ''Deposit can only be charged for the first payment. This tenant already has payments for this property.''), d)
                    else
                      (let total = js_add (js_add rent utilities) deposit in
                       if js_le total (Num 0) then
                         ((400, Error ''Total payment amount must be greater than 0''), d)
                       else if take 1 (filter (\<lambda>(k, p). landlordId p = userId \<and> tenantId p = tid
                                 \<and> propertyId p = pid \<and> period p = per
                                 \<and> status p \<in> set [Pending, Paid]) (payments d)) \<noteq> [] then
                         ((409, Error (''Payment already exists for this tenant and property in '' @ per)), d)
                       else
                         (let (payment, d1) = create now newId
                                \<lparr>leaseId = None, tenantId = tid, landlordId = userId,
                                 propertyId = pid, amount = None, totalAmount = Some total,
                                 rentAmount = Some rent, utilitiesAmount = Some utilities,
                                 depositAmount = Some deposit, currency = ''USD'', ptype = None,
                                 period = per,
                                 description = Some (if falsy (b_description b)
                                                     then ''Payment for '' @ per
                                                     else the_default [] (b_description b)),
                                 isFirstPayment = Some (\<not> hasPayments)\<rparr> d
                          in ((200, RequestCreated (fst payment) ''Payment request created successfully'' payment), d1)))))
         | _ \<Rightarrow> ((400, Error ''Missing required fields: tenantId, propertyId, period''), d)))"

text \<open>
  \<open>POST /pay/:paymentId\<close>. Lines 617 to 647, reached when the payment has no usable
  intent, are \<open>pay_new_intent\<close>; \<open>pay_request\<close> is the argument of the processor's
  create call.
\<close>

definition pay_request :: "string \<Rightarrow> payment \<Rightarrow> intent_request" where
  "pay_request paymentId payment =
     \<lparr>ir_amount = math_round (js_mul (to_number (totalAmount payment)) (Num 100)),
      ir_currency = ''usd'',
      ir_metadata = [(''paymentId'', paymentId), (''tenantId'', tenantId payment),
                     (''landlordId'', landlordId payment), (''propertyId'', propertyId payment),
                     (''period'', period payment)]\<rparr>"

definition pay_new_intent :: "gateway \<Rightarrow> string \<Rightarrow> payment \<Rightarrow> db \<Rightarrow> reply \<times> db" where
  "pay_new_intent gw paymentId payment d =
     (case paymentIntents_create gw (pay_request paymentId payment) of
        Inl e \<Rightarrow> ((500, Error ''Failed to initiate payment''), d)
      | Inr paymentIntent \<Rightarrow>
          (case updateStripeIntentId paymentId (intent_id paymentIntent) d of
             Inl e \<Rightarrow> ((500, Error ''Failed to initiate payment''), d)
           | Inr d1 \<Rightarrow>
               ((200, ClientSecret (client_secret paymentIntent) (intent_id paymentIntent)), d1)))"

definition pay :: "gateway \<Rightarrow> string \<Rightarrow> string \<Rightarrow> db \<Rightarrow> reply \<times> db" where
  "pay gw userId paymentId d =
     (case getById d paymentId of
        None \<Rightarrow> ((404, Error ''Payment not found''), d)
      | Some payment \<Rightarrow>
          if tenantId payment \<noteq> userId then
            ((403, Error ''Unauthorized: This payment is not for you''), d)
          else if status payment = Paid then ((400, Error ''Payment already completed''), d)
          else if status payment = Cancelled then
            ((400, Error ''Payment has been cancelled''), d)
          else if \<not> falsy (stripePaymentIntentId payment) then
            (case paymentIntents_retrieve gw (the_default [] (stripePaymentIntentId payment)) of
               Inl e \<Rightarrow> ((500, Error ''Failed to initiate payment''), d)
             | Inr existingIntent \<Rightarrow>
                 if intent_status existingIntent = ''succeeded'' then
                   ((400, Error ''Payment already completed''), d)
                 else if intent_status existingIntent \<noteq> ''canceled'' then
                   ((200, ClientSecret (client_secret existingIntent) (intent_id existingIntent)), d)
                 else pay_new_intent gw paymentId payment d)
          else pay_new_intent gw paymentId payment d)"

subsection \<open>Reconciliation and cancellation\<close>

text \<open>\<open>POST /sync/:paymentId\<close>; the handler is the same text in both variants.\<close>

definition sync :: "gateway \<Rightarrow> nat \<Rightarrow> string \<Rightarrow> string \<Rightarrow> db \<Rightarrow> reply \<times> db" where
  "sync gw now userId paymentId d =
     (case getById d paymentId of
        None \<Rightarrow> ((404, Error ''Payment not found''), d)
      | Some payment \<Rightarrow>
          if tenantId payment \<noteq> userId \<and> landlordId payment \<noteq> userId then
            ((403, Error ''Unauthorized''), d)
          else if falsy (stripePaymentIntentId payment) then
            ((400, Error ''No Stripe payment intent found''), d)
          else
            (case paymentIntents_retrieve gw (the_default [] (stripePaymentIntentId payment)) of
               Inl e \<Rightarrow> ((500, Error ''Failed to sync payment''), d)
             | Inr paymentIntent \<Rightarrow>
                 if intent_status paymentIntent = ''succeeded'' \<and> status payment \<noteq> Paid then
                   (case updateStatus now (Some paymentId) Paid
                           (Some (first_charge (charges paymentIntent))) d of
                      Inl e \<Rightarrow> ((500, Error ''Failed to sync payment''), d)
                    | Inr d1 \<Rightarrow> ((200, SyncReport ''Payment synced successfully'' Paid True), d1))
                 else if intent_status paymentIntent = ''canceled'' \<and> status payment = Pending then
                   (case updateStatus now (Some paymentId) Failed None d of
                      Inl e \<Rightarrow> ((500, Error ''Failed to sync payment''), d)
                    | Inr d1 \<Rightarrow> ((200, SyncReport ''Payment synced successfully'' Failed True), d1))
                 else ((200, SyncReport ''No sync needed'' (status payment) False), d)))"

text \<open>\<open>DELETE /:paymentId\<close>.\<close>

definition cancel :: "nat \<Rightarrow> string \<Rightarrow> string \<Rightarrow> db \<Rightarrow> reply \<times> db" where
  "cancel now userId paymentId d =
     (case getById d paymentId of
        None \<Rightarrow> ((404, Error ''Payment not found''), d)
      | Some payment \<Rightarrow>
          if landlordId payment \<noteq> userId then ((403, Error ''Unauthorized''), d)
          else if status payment = Paid then ((400, Error ''Cannot cancel a paid payment''), d)
          else
            (case updateStatus now (Some paymentId) Cancelled None d of
               Inl e \<Rightarrow> ((500, Error ''Failed to cancel payment''), d)
             | Inr d1 \<Rightarrow> ((200, Message ''Payment cancelled successfully''), d1)))"

text \<open>
  \<open>POST /webhook\<close>; the handler is the same text in both variants. \<open>rawBody\<close> is the
  unparsed request body, \<open>sig\<close> the \<open>stripe-signature\<close> header and \<open>secret\<close> the
  configured webhook secret.
\<close>

definition webhook ::
  "gateway \<Rightarrow> nat \<Rightarrow> string \<Rightarrow> string option \<Rightarrow> string option \<Rightarrow> db \<Rightarrow> reply \<times> db" where
  "webhook gw now rawBody sig secret d =
     (case constructEvent gw rawBody sig secret of
        Inl message \<Rightarrow> ((400, ErrorText (''Webhook Error: '' @ message)), d)
      | Inr ev \<Rightarrow>
          if event_type ev = ''payment_intent.succeeded'' then
            (case updateStatus now (metadata_paymentId (event_object ev)) Paid
                    (Some (first_charge (charges (event_object ev)))) d of
               Inl e \<Rightarrow> ((500, Error ''Webhook processing failed''), d)
             | Inr d1 \<Rightarrow> ((200, Received), d1))
          else if event_type ev = ''payment_intent.payment_failed'' then
            (case updateStatus now (metadata_paymentId (event_object ev)) Failed None d of
               Inl e \<Rightarrow> ((500, Error ''Webhook processing failed''), d)
             | Inr d1 \<Rightarrow> ((200, Received), d1))
          else ((200, Received), d))"

section \<open>Sample data\<close>

text \<open>A landlord-request payment of tenant \<open>T\<close> for property \<open>P\<close> and period
  \<open>2025-03\<close>, in a given status, and the store that holds it under the id \<open>p1\<close>.\<close>

definition sample_payment :: "status \<Rightarrow> payment" where
  "sample_payment s =
     \<lparr>leaseId = None, tenantId = ''T'', landlordId = ''L'', propertyId = ''P'',
      amount = None, totalAmount = Some (Num 1000), rentAmount = Some (Num 1000),
      utilitiesAmount = Some (Num 0), depositAmount = Some (Num 0), currency = ''USD'',
      ptype = None, period = ''2025-03'', description = Some ''March'',
      isFirstPayment = Some True, status = s, stripePaymentIntentId = Some ''pi1'',
      stripeChargeId = None, createdAt = 1, paidAt = None\<rparr>"

definition sample_db :: "status \<Rightarrow> db" where
  "sample_db s = \<lparr>payments = [(''p1'', sample_payment s)], leases = []\<rparr>"

text \<open>An intent of the payment \<open>p1\<close> in a given processor status, with one charge.\<close>

definition sample_intent :: "string \<Rightarrow> intent" where
  "sample_intent st =
     \<lparr>intent_id = ''pi1'', intent_status = st, client_secret = ''cs1'',
      charges = Some [''ch1''], metadata_paymentId = Some ''p1''\<rparr>"

text \<open>A processor whose intents are all in status \<open>st\<close> and that verifies every
  payload as an event of type \<open>ty\<close>; and one that verifies none.\<close>

definition sample_gateway :: "string \<Rightarrow> string \<Rightarrow> gateway" where
  "sample_gateway st ty =
     \<lparr>paymentIntents_create = (\<lambda>r. Inr (sample_intent st)),
      paymentIntents_retrieve = (\<lambda>i. Inr (sample_intent st)),
      constructEvent = (\<lambda>b s k. Inr \<lparr>event_type = ty, event_object = sample_intent st\<rparr>)\<rparr>"

definition rejecting_gateway :: gateway where
  "rejecting_gateway =
     \<lparr>paymentIntents_create = (\<lambda>r. Inl ''unavailable''),
      paymentIntents_retrieve = (\<lambda>i. Inl ''unavailable''),
      constructEvent = (\<lambda>b s k. Inl ''No signatures found matching the expected signature for payload'')\<rparr>"

text \<open>A request body of the landlord create route for \<open>T\<close>, \<open>P\<close>, \<open>2025-03\<close> with
  the given rent and deposit.\<close>

definition sample_body :: "rat \<Rightarrow> rat \<Rightarrow> create_body" where
  "sample_body rent deposit =
     \<lparr>b_tenantId = Some ''T'', b_propertyId = Some ''P'', b_period = Some ''2025-03'',
      b_rentAmount = Num rent, b_utilitiesAmount = Num 0, b_depositAmount = Num deposit,
      b_description = None\<rparr>"



section \<open>Names for what the routes write, send and read\<close>




text \<open>The document the landlord create route stores for the amounts it has read.\<close>

definition request_record ::
  "nat \<Rightarrow> string \<Rightarrow> string \<Rightarrow> string \<Rightarrow> string \<Rightarrow> jsnum \<Rightarrow> jsnum \<Rightarrow> jsnum \<Rightarrow> string \<Rightarrow> bool
     \<Rightarrow> payment" where
  "request_record now u tid pid per rent utilities deposit desc first =
     \<lparr>leaseId = None, tenantId = tid, landlordId = u, propertyId = pid, amount = None,
      totalAmount = Some (js_add (js_add rent utilities) deposit), rentAmount = Some rent,
      utilitiesAmount = Some utilities, depositAmount = Some deposit, currency = ''USD'',
      ptype = None, period = per, description = Some desc, isFirstPayment = Some first,
      status = Pending, stripePaymentIntentId = None, stripeChargeId = None,
      createdAt = now, paidAt = None\<rparr>"

text \<open>The uniqueness the duplicate check of the landlord create route works for: no two
  payments that are pending or paid share landlord, tenant, property and period.\<close>

definition active_key :: "string \<times> payment \<Rightarrow> string \<times> string \<times> string \<times> string" where
  "active_key kp = (landlordId (snd kp), tenantId (snd kp), propertyId (snd kp), period (snd kp))"

definition one_active_per_key :: "db \<Rightarrow> bool" where
  "one_active_per_key d =
     distinct (map active_key (filter (\<lambda>(k, p). status p \<in> set [Pending, Paid]) (payments d)))"

section \<open>Store operations\<close>

lemma map_of_doc_merge:
  "map_of (doc_merge k f ps) k' = (if k' = k then map_option f (map_of ps k) else map_of ps k')"
  by (induction ps) auto

lemma map_of_doc_set: "map_of (doc_set k v ps) k' = (if k' = k then Some v else map_of ps k')"
  by (induction ps) auto

lemma getById_doc_update:
  "doc_update pid f d = Inr d' \<Longrightarrow>
     getById d' k' = (if Some k' = pid then map_option f (getById d k') else getById d k')"
  by (auto simp: doc_update_def getById_def map_of_doc_merge split: option.splits)

lemma doc_update_existing:
  "getById d k = Some p \<Longrightarrow> doc_update (Some k) f d = Inr (d\<lparr>payments := doc_merge k f (payments d)\<rparr>)"
  by (simp add: doc_update_def getById_def)

lemma doc_merge_doc_set: "doc_merge k f (doc_set k v ps) = doc_set k (f v) ps"
  by (induction ps) auto

section \<open>Steps 6 to 8 of the lease-keyed create route\<close>


section \<open>Summing amounts\<close>








section \<open>Webhook signature verification\<close>

text \<open>
  Claim C4. When the processor's verification of the payload against the signature header
  and the webhook secret fails, the webhook handler replies with status 400 and the
  store it leaves is the store it found: no payment document is touched.
\<close>

theorem webhook_invalid_signature:
  "constructEvent gw rawBody sig secret = Inl message \<Longrightarrow>
     webhook gw now rawBody sig secret d = ((400, ErrorText (''Webhook Error: '' @ message)), d)"
  by (simp add: webhook_def)

theorem webhook_invalid_signature_witness:
  "webhook rejecting_gateway 7 ''{}'' (Some ''t=1,v1=00'') (Some ''whsec'') (sample_db Pending)
     = ((400, ErrorText ''Webhook Error: No signatures found matching the expected signature for payload''),
        sample_db Pending)"
  using webhook_invalid_signature [of rejecting_gateway "''{}''" "Some ''t=1,v1=00''" "Some ''whsec''"
      "''No signatures found matching the expected signature for payload''" 7 "sample_db Pending"]
  by (simp add: rejecting_gateway_def)

section \<open>Authorization of initiate-charge\<close>

text \<open>
  Claim C7 as stated fails: the payment's landlord is not authorized. The route compares
  the requester with the payment's tenant only, so the landlord \<open>L\<close> of the sample
  payment is answered 403.
\<close>

theorem pay_landlord_counterexample:
  "getById (sample_db Pending) ''p1'' = Some (sample_payment Pending) \<and>
   landlordId (sample_payment Pending) = ''L'' \<and>
   fst (fst (pay (sample_gateway ''requires_payment_method'' ''x'') ''L'' ''p1'' (sample_db Pending))) = 403"
  by (simp add: pay_def getById_def sample_db_def sample_payment_def)

text \<open>
  Claim C7, amended. For an existing payment, initiate-charge is answered 403 exactly when
  the requester is not the payment's tenant; and for the tenant it is answered 400, with
  the store unchanged, when the payment is paid or cancelled.
\<close>

theorem pay_authorization:
  assumes "getById d k = Some p"
  shows "(fst (fst (pay gw u k d)) = 403) = (tenantId p \<noteq> u) \<and>
         (tenantId p = u \<and> (status p = Paid \<or> status p = Cancelled) \<longrightarrow>
            fst (fst (pay gw u k d)) = 400 \<and> snd (pay gw u k d) = d)"
  using assms
  by (auto simp: pay_def pay_new_intent_def split: sum.splits)

theorem pay_authorization_witness:
  "fst (fst (pay (sample_gateway ''succeeded'' ''x'') ''T'' ''p1'' (sample_db Paid))) \<noteq> 403 \<and>
   fst (fst (pay (sample_gateway ''succeeded'' ''x'') ''T'' ''p1'' (sample_db Paid))) = 400 \<and>
   snd (pay (sample_gateway ''succeeded'' ''x'') ''T'' ''p1'' (sample_db Paid)) = sample_db Paid"
  using pay_authorization [of "sample_db Paid" "''p1''" "sample_payment Paid"
      "sample_gateway ''succeeded'' ''x''" "''T''"]
  by (simp add: getById_def sample_db_def sample_payment_def)

section \<open>Evaluating the routes on sample data\<close>

lemma math_round_whole: "math_round (Num (of_int n)) = Num (of_int n)"
proof -
  have "\<lfloor>(of_int n :: rat) + 1 / 2\<rfloor> = n" by linarith
  then show ?thesis by simp
qed

lemma math_round_numeral [simp]: "math_round (Num (numeral n)) = Num (numeral n)"
  using math_round_whole [of "numeral n"] by simp

lemma math_round_zero [simp]: "math_round (Num 0) = Num 0"
  using math_round_whole [of 0] by simp

declare math_round.simps(1) [simp del]

section \<open>Landlord statistics\<close>




section \<open>The lease-keyed create route\<close>










section \<open>Status transitions\<close>

lemma status_updateData [simp]: "status (updateData now s e p) = s"
  by (simp add: updateData_def Let_def split: option.splits)

lemma getById_updateStatus:
  "updateStatus now pid s e d = Inr d' \<Longrightarrow>
     getById d' k = (if Some k = pid then map_option (updateData now s e) (getById d k) else getById d k)"
  unfolding updateStatus_def by (rule getById_doc_update)

lemma updateStatus_existing:
  "getById d k = Some p \<Longrightarrow> \<exists>d'. updateStatus now (Some k) s e d = Inr d'"
  by (simp add: updateStatus_def doc_update_existing)

lemma getById_updateStripeIntentId:
  "updateStripeIntentId k' iid d = Inr d' \<Longrightarrow>
     map_option status (getById d' k) = map_option status (getById d k)"
  unfolding updateStripeIntentId_def
  by (drule getById_doc_update [where k' = k]) (auto simp: option.map_comp comp_def split: if_splits)

lemma pay_new_intent_status:
  "map_option status (getById (snd (pay_new_intent gw k' p' d)) k) = map_option status (getById d k)"
  by (auto simp: pay_new_intent_def getById_updateStripeIntentId split: sum.splits)

lemma pay_status:
  "map_option status (getById (snd (pay gw u k' d)) k) = map_option status (getById d k)"
  by (simp add: pay_def pay_new_intent_status split: option.splits sum.splits)

lemma cancel_status:
  assumes "getById d k = Some p"
  shows "map_option status (getById (snd (cancel now u k' d)) k) = Some (status p) \<or>
         (status p \<noteq> Paid \<and> map_option status (getById (snd (cancel now u k' d)) k) = Some Cancelled)"
proof (cases "getById d k'")
  case None
  then show ?thesis using assms by (simp add: cancel_def)
next
  case (Some p')
  show ?thesis
  proof (cases "updateStatus now (Some k') Cancelled None d")
    case (Inl e)
    then show ?thesis using assms Some by (simp add: cancel_def)
  next
    case (Inr d1)
    from getById_updateStatus [OF Inr, of k] assms Some Inr show ?thesis
      by (auto simp: cancel_def)
  qed
qed

lemma sync_store_cases:
  assumes "P d"
    and "\<And>p' e d1. getById d k' = Some p' \<Longrightarrow> status p' \<noteq> Paid \<Longrightarrow>
           updateStatus now (Some k') Paid e d = Inr d1 \<Longrightarrow> P d1"
    and "\<And>p' d1. getById d k' = Some p' \<Longrightarrow> status p' = Pending \<Longrightarrow>
           updateStatus now (Some k') Failed None d = Inr d1 \<Longrightarrow> P d1"
  shows "P (snd (sync gw now u k' d))"
  using assms by (simp add: sync_def split: option.splits sum.splits)

lemma sync_status:
  assumes "getById d k = Some p"
  shows "map_option status (getById (snd (sync gw now u k' d)) k) = Some (status p) \<or>
         (status p \<noteq> Paid \<and> map_option status (getById (snd (sync gw now u k' d)) k) = Some Paid) \<or>
         (status p = Pending \<and> map_option status (getById (snd (sync gw now u k' d)) k) = Some Failed)"
proof (rule sync_store_cases)
  show "map_option status (getById d k) = Some (status p) \<or>
         (status p \<noteq> Paid \<and> map_option status (getById d k) = Some Paid) \<or>
         (status p = Pending \<and> map_option status (getById d k) = Some Failed)"
    using assms by simp
next
  fix p' e d1
  assume "getById d k' = Some p'" "status p' \<noteq> Paid"
    "updateStatus now (Some k') Paid e d = Inr d1"
  then show "map_option status (getById d1 k) = Some (status p) \<or>
         (status p \<noteq> Paid \<and> map_option status (getById d1 k) = Some Paid) \<or>
         (status p = Pending \<and> map_option status (getById d1 k) = Some Failed)"
    using assms getById_updateStatus [of now "Some k'" Paid e d d1 k] by (cases "k = k'") auto
next
  fix p' d1
  assume "getById d k' = Some p'" "status p' = Pending"
    "updateStatus now (Some k') Failed None d = Inr d1"
  then show "map_option status (getById d1 k) = Some (status p) \<or>
         (status p \<noteq> Paid \<and> map_option status (getById d1 k) = Some Paid) \<or>
         (status p = Pending \<and> map_option status (getById d1 k) = Some Failed)"
    using assms getById_updateStatus [of now "Some k'" Failed None d d1 k] by (cases "k = k'") auto
qed

lemma cancel_paid:
  "getById d k = Some p \<Longrightarrow> status p = Paid \<Longrightarrow> landlordId p = u \<Longrightarrow>
     cancel now u k d = ((400, Error ''Cannot cancel a paid payment''), d)"
  by (simp add: cancel_def)

text \<open>
  Claim C1, amended. Initiate-charge changes no payment's status. Landlord cancellation
  leaves a payment's status as it is or moves it from a status other than paid to
  cancelled; manual sync leaves it as it is, moves it from a status other than paid to
  paid, or moves it from pending to failed. So paid is terminal for these three
  operations, and cancelling a paid payment as its landlord is answered 400 with the store
  unchanged. The statement holds whichever payment the operation addresses, and does not
  speak about the webhook.
\<close>

theorem transitions_of_cancel_sync_pay:
  assumes "getById d k = Some p"
  shows "map_option status (getById (snd (pay gw u k' d)) k) = Some (status p) \<and>
    (map_option status (getById (snd (cancel now u k' d)) k) = Some (status p) \<or>
       (status p \<noteq> Paid \<and> map_option status (getById (snd (cancel now u k' d)) k) = Some Cancelled)) \<and>
    (map_option status (getById (snd (sync gw now u k' d)) k) = Some (status p) \<or>
       (status p \<noteq> Paid \<and> map_option status (getById (snd (sync gw now u k' d)) k) = Some Paid) \<or>
       (status p = Pending \<and> map_option status (getById (snd (sync gw now u k' d)) k) = Some Failed)) \<and>
    (status p = Paid \<and> landlordId p = u \<longrightarrow>
       cancel now u k d = ((400, Error ''Cannot cancel a paid payment''), d))"
  using assms pay_status [of gw u k' d k] cancel_status [OF assms, of now u k']
    sync_status [OF assms, of gw now u k'] cancel_paid [OF assms, of u now]
  by simp

lemmas sample_eval =
  sample_db_def sample_payment_def sample_gateway_def sample_intent_def getById_def
  updateStatus_def doc_update_def updateData_def Let_def

text \<open>
  Claim C1 as stated fails. A \<open>payment_intent.payment_failed\<close> webhook turns a paid
  payment into a failed one; the landlord's cancellation turns a failed payment into a
  cancelled one; and a manual sync that finds the intent succeeded turns a cancelled
  payment into a paid one.
\<close>

theorem terminal_states_counterexample:
  "map_option status (getById (snd (webhook
      (sample_gateway ''requires_payment_method'' ''payment_intent.payment_failed'') 9 ''{}'' (Some ''sig'') (Some ''whsec'')
      (sample_db Paid))) ''p1'') = Some Failed \<and>
   map_option status (getById (snd (cancel 9 ''L'' ''p1'' (sample_db Failed))) ''p1'') = Some Cancelled \<and>
   map_option status (getById (snd (sync (sample_gateway ''succeeded'' ''x'') 9 ''T'' ''p1''
      (sample_db Cancelled))) ''p1'') = Some Paid"
  by (simp add: webhook_def cancel_def sync_def sample_eval)

theorem transitions_of_cancel_sync_pay_witness:
  "map_option status (getById (snd (pay (sample_gateway ''succeeded'' ''x'') ''L'' ''p1'' (sample_db Paid))) ''p1'')
     = Some Paid \<and>
   map_option status (getById (snd (cancel 9 ''L'' ''p1'' (sample_db Paid))) ''p1'') = Some Paid \<and>
   map_option status (getById (snd (sync (sample_gateway ''succeeded'' ''x'') 9 ''L'' ''p1'' (sample_db Paid))) ''p1'')
     = Some Paid \<and>
   cancel 9 ''L'' ''p1'' (sample_db Paid) = ((400, Error ''Cannot cancel a paid payment''), sample_db Paid)"
  using transitions_of_cancel_sync_pay [of "sample_db Paid" "''p1''" "sample_payment Paid"
      "sample_gateway ''succeeded'' ''x''" "''L''" "''p1''" 9]
  by (simp add: getById_def sample_db_def sample_payment_def)

section \<open>Repeated reconciliation\<close>

text \<open>The manual sync is idempotent on success: once it has marked the payment paid, a
  further sync leaves the store as it is.\<close>

lemma sync_no_op_when_paid:
  "getById d k = Some p \<Longrightarrow> status p = Paid \<Longrightarrow> snd (sync gw now u k d) = d"
  by (simp add: sync_def split: sum.splits)

lemma sync_succeeded_marks_paid:
  assumes "fst (sync gw now u k d) = (200, SyncReport ''Payment synced successfully'' Paid True)"
  shows "map_option status (getById (snd (sync gw now u k d)) k) = Some Paid"
proof (cases "getById d k")
  case None
  with assms show ?thesis by (simp add: sync_def)
next
  case (Some p)
  have "updateStatus now (Some k) s e d = Inr d1 \<Longrightarrow> map_option status (getById d1 k) = Some s"
    for s e d1
    using getById_updateStatus [of now "Some k" s e d d1 k] Some by simp
  with assms Some show ?thesis
    by (auto simp: sync_def split: sum.splits if_splits)
qed

lemma sync_twice:
  assumes "fst (sync gw now u k d) = (200, SyncReport ''Payment synced successfully'' Paid True)"
  shows "snd (sync gw' now' u' k (snd (sync gw now u k d))) = snd (sync gw now u k d)"
proof -
  from sync_succeeded_marks_paid [OF assms]
  obtain p where "getById (snd (sync gw now u k d)) k = Some p" "status p = Paid" by auto
  then show ?thesis by (rule sync_no_op_when_paid)
qed

text \<open>
  Claim C2 says that a second \<open>succeeded\<close> delivery leaves the stored record as the
  first one made it. The sync route does (\<open>sync_twice\<close>); the webhook route writes
  unconditionally. A payment marked paid at instant 100, by the sync or by a first webhook,
  has \<open>paidAt\<close> 200 after a \<open>payment_intent.succeeded\<close> webhook delivered at instant 200.
\<close>

theorem webhook_succeeded_restamps_paidAt:
  "map_option paidAt (getById (snd (sync (sample_gateway ''succeeded'' ''payment_intent.succeeded'')
       100 ''T'' ''p1'' (sample_db Pending))) ''p1'') = Some (Some 100) \<and>
   map_option paidAt (getById (snd (webhook (sample_gateway ''succeeded'' ''payment_intent.succeeded'')
       200 ''{}'' (Some ''sig'') (Some ''whsec'')
       (snd (sync (sample_gateway ''succeeded'' ''payment_intent.succeeded'')
          100 ''T'' ''p1'' (sample_db Pending))))) ''p1'') = Some (Some 200) \<and>
   map_option paidAt (getById (snd (webhook (sample_gateway ''succeeded'' ''payment_intent.succeeded'')
       100 ''{}'' (Some ''sig'') (Some ''whsec'') (sample_db Pending))) ''p1'') = Some (Some 100) \<and>
   map_option paidAt (getById (snd (webhook (sample_gateway ''succeeded'' ''payment_intent.succeeded'')
       200 ''{}'' (Some ''sig'') (Some ''whsec'')
       (snd (webhook (sample_gateway ''succeeded'' ''payment_intent.succeeded'')
          100 ''{}'' (Some ''sig'') (Some ''whsec'') (sample_db Pending))))) ''p1'') = Some (Some 200)"
  by (simp add: webhook_def sync_def sample_eval)

section \<open>The landlord create route\<close>

lemma or_zero_Num: "\<exists>r. or_zero x = Num r"
  by (cases x) (auto simp: or_zero_def)

lemma create_eq:
  "create now newId pd d =
     ((newId, payment_data.extend pd (payment.fields Pending None None now None)),
      d\<lparr>payments := doc_set newId (payment_data.extend pd (payment.fields Pending None None now None))
           (payments d)\<rparr>)"
  by (simp add: create_def Let_def)

lemma create_request_store_cases:
  assumes "P d"
    and "\<And>tid pid per desc.
           b_tenantId b = Some tid \<Longrightarrow> b_propertyId b = Some pid \<Longrightarrow> b_period b = Some per \<Longrightarrow>
           filter (\<lambda>(k, p). landlordId p = u \<and> tenantId p = tid \<and> propertyId p = pid \<and> period p = per
                     \<and> status p \<in> set [Pending, Paid]) (payments d) = [] \<Longrightarrow>
           P (d\<lparr>payments := doc_set newId
                 (request_record now u tid pid per (or_zero (b_rentAmount b)) (or_zero (b_utilitiesAmount b))
                    (or_zero (b_depositAmount b)) desc (\<not> hasExistingPayments d tid pid))
                 (payments d)\<rparr>)"
  shows "P (snd (create_request now newId u b d))"
  using assms
  by (simp add: create_request_def create_eq Let_def request_record_def payment_data.defs
      payment.defs split: option.splits)

lemma active_filter_nonempty:
  assumes "(k, p) \<in> set (payments d)" "landlordId p = u" "tenantId p = tid" "propertyId p = pid"
    "period p = per" "status p = Pending \<or> status p = Paid"
  shows "filter (\<lambda>(k, p). landlordId p = u \<and> tenantId p = tid \<and> propertyId p = pid \<and> period p = per
                     \<and> status p \<in> set [Pending, Paid]) (payments d) \<noteq> []"
  using assms by (auto simp: filter_empty_conv)

lemma existing_filter_nonempty:
  assumes "(k, p) \<in> set (payments d)" "tenantId p = tid" "propertyId p = pid"
    "status p = Pending \<or> status p = Paid"
  shows "hasExistingPayments d tid pid"
  using assms by (auto simp: hasExistingPayments_def filter_empty_conv)

lemma create_request_duplicate:
  assumes "(k, p) \<in> set (payments d)" "landlordId p = u" "tenantId p = tid" "propertyId p = pid"
    "period p = per" "status p = Pending \<or> status p = Paid"
    and "b_tenantId b = Some tid" "b_propertyId b = Some pid" "b_period b = Some per"
  shows "snd (create_request now newId u b d) = d \<and>
    (fst (fst (create_request now newId u b d)) = 409 \<or>
     fst (fst (create_request now newId u b d)) = 400) \<and>
    (tid \<noteq> [] \<and> pid \<noteq> [] \<and> period_format per \<and>
     \<not> js_gt (or_zero (b_depositAmount b)) (Num 0) \<and>
     js_gt (js_add (js_add (or_zero (b_rentAmount b)) (or_zero (b_utilitiesAmount b)))
              (or_zero (b_depositAmount b))) (Num 0) \<longrightarrow>
       create_request now newId u b d
         = ((409, Error (''Payment already exists for this tenant and property in '' @ per)), d))"
proof -
  note ne = active_filter_nonempty [OF assms(1-6)]
  have per: "period_format per \<Longrightarrow> per \<noteq> []" by (cases per) auto
  obtain r w z where nums: "or_zero (b_rentAmount b) = Num r" "or_zero (b_utilitiesAmount b) = Num w"
    "or_zero (b_depositAmount b) = Num z"
    using or_zero_Num by metis
  have a: "snd (create_request now newId u b d) = d"
    by (rule create_request_store_cases) (use assms(7-9) ne in auto)
  have b: "fst (fst (create_request now newId u b d)) = 409 \<or>
     fst (fst (create_request now newId u b d)) = 400"
    using assms(7-9) ne by (simp add: create_request_def Let_def)
  have c: "create_request now newId u b d
         = ((409, Error (''Payment already exists for this tenant and property in '' @ per)), d)"
    if "tid \<noteq> [] \<and> pid \<noteq> [] \<and> period_format per \<and>
     \<not> js_gt (or_zero (b_depositAmount b)) (Num 0) \<and>
     js_gt (js_add (js_add (or_zero (b_rentAmount b)) (or_zero (b_utilitiesAmount b)))
              (or_zero (b_depositAmount b))) (Num 0)"
    using that assms(7-9) ne per nums by (auto simp: create_request_def Let_def)
  from a b c show ?thesis by blast
qed

lemma doc_set_fresh: "k \<notin> fst ` set ps \<Longrightarrow> doc_set k v ps = ps @ [(k, v)]"
  by (induction ps) auto

lemma create_request_keeps_one_active_per_key:
  assumes inv: "one_active_per_key d" and fresh: "newId \<notin> fst ` set (payments d)"
  shows "one_active_per_key (snd (create_request now newId u b d))"
proof (rule create_request_store_cases)
  show "one_active_per_key d" by (rule inv)
next
  fix tid pid per desc
  let ?rec = "request_record now u tid pid per (or_zero (b_rentAmount b))
      (or_zero (b_utilitiesAmount b)) (or_zero (b_depositAmount b)) desc
      (\<not> hasExistingPayments d tid pid)"
  assume none: "filter (\<lambda>(k, p). landlordId p = u \<and> tenantId p = tid \<and> propertyId p = pid
      \<and> period p = per \<and> status p \<in> set [Pending, Paid]) (payments d) = []"
  have key: "active_key (newId, ?rec) = (u, tid, pid, per)" and st: "status ?rec = Pending"
    by (simp_all add: active_key_def request_record_def)
  have "(u, tid, pid, per) \<notin> set (map active_key
      (filter (\<lambda>(k, p). status p \<in> set [Pending, Paid]) (payments d)))"
    using none by (auto simp: filter_empty_conv active_key_def)
  with inv key st show "one_active_per_key (d\<lparr>payments := doc_set newId ?rec (payments d)\<rparr>)"
    by (simp add: one_active_per_key_def doc_set_fresh [OF fresh])
qed

text \<open>
  Claim C3, amended. When the store holds a pending or paid payment of the requesting
  landlord for the tenant, property and period of a create request, the request writes
  nothing and is answered 409 or 400; it is answered 409 when its fields are present, its
  period is well formed, it asks for no deposit and its total is positive. And the
  landlord create route keeps the store free of two pending or paid payments with the
  same landlord, tenant, property and period, when the new document's id is fresh.
\<close>

theorem create_request_uniqueness:
  "((k, p) \<in> set (payments d) \<and> landlordId p = u \<and> tenantId p = tid \<and> propertyId p = pid \<and>
    period p = per \<and> (status p = Pending \<or> status p = Paid) \<and>
    b_tenantId b = Some tid \<and> b_propertyId b = Some pid \<and> b_period b = Some per \<longrightarrow>
      snd (create_request now newId u b d) = d \<and>
      (fst (fst (create_request now newId u b d)) = 409 \<or>
       fst (fst (create_request now newId u b d)) = 400) \<and>
      (tid \<noteq> [] \<and> pid \<noteq> [] \<and> period_format per \<and>
       \<not> js_gt (or_zero (b_depositAmount b)) (Num 0) \<and>
       js_gt (js_add (js_add (or_zero (b_rentAmount b)) (or_zero (b_utilitiesAmount b)))
                (or_zero (b_depositAmount b))) (Num 0) \<longrightarrow>
         create_request now newId u b d
           = ((409, Error (''Payment already exists for this tenant and property in '' @ per)), d))) \<and>
   (one_active_per_key d \<and> newId \<notin> fst ` set (payments d) \<longrightarrow>
      one_active_per_key (snd (create_request now newId u b d)))"
  using create_request_duplicate [of k p d u tid pid per b now newId]
    create_request_keeps_one_active_per_key [of d newId now u b]
  by blast

lemmas request_eval =
  create_request_def create_eq hasExistingPayments_def or_zero_def Let_def digit_def
  sample_body_def sample_db_def sample_payment_def request_record_def
  payment_data.defs payment.defs

text \<open>
  Claim C3 as stated fails: the duplicate check looks for pending and paid payments only.
  With a failed payment of \<open>T\<close> for \<open>P\<close> and \<open>2025-03\<close> in the store, which is not
  cancelled, a second create for the same tenant, property and period is answered 200 and
  its record is stored beside the first.
\<close>

theorem create_request_after_failed_counterexample:
  "status (sample_payment Failed) \<noteq> Cancelled \<and>
   create_request 5 ''n1'' ''L'' (sample_body 1000 0) (sample_db Failed)
     = ((200, RequestCreated ''n1'' ''Payment request created successfully''
           (''n1'', request_record 5 ''L'' ''T'' ''P'' ''2025-03'' (Num 1000) (Num 0) (Num 0)
                      ''Payment for 2025-03'' True)),
        \<lparr>payments = [(''p1'', sample_payment Failed),
            (''n1'', request_record 5 ''L'' ''T'' ''P'' ''2025-03'' (Num 1000) (Num 0) (Num 0)
                      ''Payment for 2025-03'' True)],
         leases = []\<rparr>)"
  by (simp add: request_eval)

theorem create_request_uniqueness_witness:
  "create_request 5 ''n1'' ''L'' (sample_body 1000 0) (sample_db Pending)
     = ((409, Error ''Payment already exists for this tenant and property in 2025-03''),
        sample_db Pending) \<and>
   one_active_per_key (sample_db Pending) \<and>
   one_active_per_key (snd (create_request 5 ''n1'' ''L'' (sample_body 1000 0) (sample_db Pending))) \<and>
   fst (fst (create_request 5 ''n1'' ''L'' (sample_body 1000 0) (sample_db Cancelled))) = 200 \<and>
   one_active_per_key (snd (create_request 5 ''n1'' ''L'' (sample_body 1000 0) (sample_db Cancelled)))"
proof -
  note t' = create_request_uniqueness [of "''p1''" "sample_payment Cancelled" "sample_db Cancelled"
      "''L''" "''T''" "''P''" "''2025-03''" "sample_body 1000 0" 5 "''n1''"]
  have a': "''n1'' \<notin> fst ` set (payments (sample_db Cancelled))"
    "one_active_per_key (sample_db Cancelled)"
    "status (sample_payment Cancelled) = Cancelled"
    by (simp_all add: sample_db_def sample_payment_def one_active_per_key_def)
  have d': "fst (fst (create_request 5 ''n1'' ''L'' (sample_body 1000 0) (sample_db Cancelled))) = 200"
    by (simp add: request_eval)
  note t = create_request_uniqueness [of "''p1''" "sample_payment Pending" "sample_db Pending"
      "''L''" "''T''" "''P''" "''2025-03''" "sample_body 1000 0" 5 "''n1''"]
  have a: "(''p1'', sample_payment Pending) \<in> set (payments (sample_db Pending))"
    "landlordId (sample_payment Pending) = ''L''" "tenantId (sample_payment Pending) = ''T''"
    "propertyId (sample_payment Pending) = ''P''" "period (sample_payment Pending) = ''2025-03''"
    "status (sample_payment Pending) = Pending"
    "''n1'' \<notin> fst ` set (payments (sample_db Pending))"
    by (simp_all add: sample_db_def sample_payment_def)
  have b: "b_tenantId (sample_body 1000 0) = Some ''T''" "b_propertyId (sample_body 1000 0) = Some ''P''"
    "b_period (sample_body 1000 0) = Some ''2025-03''"
    "or_zero (b_depositAmount (sample_body 1000 0)) = Num 0"
    "or_zero (b_rentAmount (sample_body 1000 0)) = Num 1000"
    "or_zero (b_utilitiesAmount (sample_body 1000 0)) = Num 0"
    by (simp_all add: sample_body_def or_zero_def)
  have c: "one_active_per_key (sample_db Pending)"
    by (simp add: one_active_per_key_def sample_db_def)
  from t t' show ?thesis by (simp add: a b c a' d' digit_def)
qed

text \<open>
  Claim C6, amended. A create request with a positive deposit, for a tenant and property
  that already have a pending or paid payment, is answered 400 and writes nothing; when
  its fields are present and its period is well formed, the reply is the deposit rule's
  message.
\<close>

theorem deposit_after_first_payment_rejected:
  assumes "(k, p) \<in> set (payments d)" "tenantId p = tid" "propertyId p = pid"
    "status p = Pending \<or> status p = Paid"
    and "b_tenantId b = Some tid" "b_propertyId b = Some pid"
    and "js_gt (or_zero (b_depositAmount b)) (Num 0)"
  shows "fst (fst (create_request now newId u b d)) = 400 \<and>
    snd (create_request now newId u b d) = d \<and>
    (tid \<noteq> [] \<and> pid \<noteq> [] \<and> b_period b = Some per \<and> period_format per \<longrightarrow>
       create_request now newId u b d
         = ((400, Error ''Deposit can only be charged for the first payment. This tenant already has payments for this property.''), d))"
proof -
  note h = existing_filter_nonempty [OF assms(1-4)]
  obtain z where z: "or_zero (b_depositAmount b) = Num z" using or_zero_Num by metis
  with assms(7) have nle: "\<not> js_le (or_zero (b_depositAmount b)) (Num 0)" by simp
  have per: "period_format per \<Longrightarrow> per \<noteq> []" by (cases per) auto
  show ?thesis using assms(5-7) h nle per
    by (auto simp: create_request_def Let_def split: option.splits)
qed

text \<open>
  Claim C6 as stated fails. The deposit rule's reply has status 400, not 409; and the rule
  counts pending and paid payments only, so with a failed payment of the tenant for the
  property, which is not cancelled, a request with deposit 500 is answered 200 and its
  record is stored.
\<close>

theorem deposit_rule_counterexample:
  "fst (fst (create_request 5 ''n1'' ''L'' (sample_body 1000 500) (sample_db Pending))) = 400 \<and>
   status (sample_payment Failed) \<noteq> Cancelled \<and>
   fst (fst (create_request 5 ''n1'' ''L'' (sample_body 1000 500) (sample_db Failed))) = 200 \<and>
   payments (snd (create_request 5 ''n1'' ''L'' (sample_body 1000 500) (sample_db Failed)))
     = [(''p1'', sample_payment Failed),
        (''n1'', request_record 5 ''L'' ''T'' ''P'' ''2025-03'' (Num 1000) (Num 0) (Num 500)
                   ''Payment for 2025-03'' True)]"
  by (simp add: request_eval)

theorem deposit_after_first_payment_rejected_witness:
  "create_request 5 ''n1'' ''L'' (sample_body 1000 500) (sample_db Paid)
     = ((400, Error ''Deposit can only be charged for the first payment. This tenant already has payments for this property.''),
        sample_db Paid)"
proof -
  note t = deposit_after_first_payment_rejected [of "''p1''" "sample_payment Paid" "sample_db Paid"
      "''T''" "''P''" "sample_body 1000 500" 5 "''n1''" "''L''" "''2025-03''"]
  have a: "(''p1'', sample_payment Paid) \<in> set (payments (sample_db Paid))"
    "tenantId (sample_payment Paid) = ''T''" "propertyId (sample_payment Paid) = ''P''"
    "status (sample_payment Paid) = Paid"
    by (simp_all add: sample_db_def sample_payment_def)
  have b: "b_tenantId (sample_body 1000 500) = Some ''T''"
    "b_propertyId (sample_body 1000 500) = Some ''P''"
    "b_period (sample_body 1000 500) = Some ''2025-03''"
    "or_zero (b_depositAmount (sample_body 1000 500)) = Num 500"
    by (simp_all add: sample_body_def or_zero_def)
  from t show ?thesis by (simp add: a b digit_def)
qed

section \<open>The payment scenario\<close>

lemma getById_doc_set [simp]:
  "getById (d\<lparr>payments := doc_set k v (payments d)\<rparr>) k = Some v"
  by (simp add: getById_def map_of_doc_set)

lemma doc_update_doc_set:
  "doc_update (Some k) f (d\<lparr>payments := doc_set k v (payments d)\<rparr>)
     = Inr (d\<lparr>payments := doc_set k (f v) (payments d)\<rparr>)"
  by (simp add: doc_update_def map_of_doc_set doc_merge_doc_set)

text \<open>
  Claim C5. Landlord \<open>L\<close> creates a payment for tenant \<open>T\<close>, property \<open>P\<close>, period
  \<open>2025-03\<close> and rent 1000, with no pending or paid payment of his for them in the store:
  the stored record \<open>rec0\<close> is pending with no intent id. The tenant's initiate-charge
  asks the processor for an intent of amount 100000, stores the id of the intent the
  processor returns and replies with its client secret. A verified
  \<open>payment_intent.succeeded\<close> event for the payment, carrying a charge, makes the record
  paid, with \<open>paidAt\<close> the instant of delivery and \<open>stripeChargeId\<close> the charge. A manual
  sync by the tenant or the landlord, the processor returning the intent, then replies
  \<open>synced: false\<close> and leaves the store as it is.
\<close>

theorem scenario_create_pay_webhook_sync:
  fixes d0 :: db and desc :: "string option" and T P L newId c :: string and t0 t1 :: nat
    and pin :: intent
  defines "b \<equiv> \<lparr>b_tenantId = Some T, b_propertyId = Some P, b_period = Some ''2025-03'',
                 b_rentAmount = Num 1000, b_utilitiesAmount = Num 0, b_depositAmount = Num 0,
                 b_description = desc\<rparr>"
    and "rec0 \<equiv> request_record t0 L T P ''2025-03'' (Num 1000) (Num 0) (Num 0)
                 (if falsy desc then ''Payment for 2025-03'' else the_default [] desc)
                 (\<not> hasExistingPayments d0 T P)"
  defines "d1 \<equiv> d0\<lparr>payments := doc_set newId rec0 (payments d0)\<rparr>"
    and "d2 \<equiv> d0\<lparr>payments := doc_set newId
                 (rec0\<lparr>stripePaymentIntentId := Some (intent_id pin)\<rparr>) (payments d0)\<rparr>"
    and "d3 \<equiv> d0\<lparr>payments := doc_set newId
                 (rec0\<lparr>stripePaymentIntentId := Some (intent_id pin), status := Paid,
                       stripeChargeId := Some c, paidAt := Some t1\<rparr>) (payments d0)\<rparr>"
  assumes names: "T \<noteq> []" "P \<noteq> []"
    and none: "filter (\<lambda>(k, p). landlordId p = L \<and> tenantId p = T \<and> propertyId p = P
                 \<and> period p = ''2025-03'' \<and> status p \<in> set [Pending, Paid]) (payments d0) = []"
    and created: "paymentIntents_create gw1 (pay_request newId rec0) = Inr pin"
    and iid: "intent_id pin \<noteq> []"
    and verified: "constructEvent gw2 raw sig secret = Inr ev"
    and succeeded: "event_type ev = ''payment_intent.succeeded''"
    and meta: "metadata_paymentId (event_object ev) = Some newId"
    and charge: "charges (event_object ev) = Some (c # cs)"
    and retrieved: "paymentIntents_retrieve gw3 (intent_id pin) = Inr pin'"
    and party: "v = T \<or> v = L"
  shows "create_request t0 newId L b d0
           = ((200, RequestCreated newId ''Payment request created successfully'' (newId, rec0)), d1) \<and>
         getById d1 newId = Some rec0 \<and> status rec0 = Pending \<and> stripePaymentIntentId rec0 = None \<and>
         ir_amount (pay_request newId rec0) = Num 100000 \<and>
         pay gw1 T newId d1 = ((200, ClientSecret (client_secret pin) (intent_id pin)), d2) \<and>
         getById d2 newId = Some (rec0\<lparr>stripePaymentIntentId := Some (intent_id pin)\<rparr>) \<and>
         webhook gw2 t1 raw sig secret d2 = ((200, Received), d3) \<and>
         getById d3 newId = Some (rec0\<lparr>stripePaymentIntentId := Some (intent_id pin), status := Paid,
                                       stripeChargeId := Some c, paidAt := Some t1\<rparr>) \<and>
         sync gw3 t2 v newId d3 = ((200, SyncReport ''No sync needed'' Paid False), d3)"
proof -
  have rec0: "status rec0 = Pending" "stripePaymentIntentId rec0 = None" "tenantId rec0 = T"
    "landlordId rec0 = L" "totalAmount rec0 = Some (Num 1000)"
    by (simp_all add: rec0_def request_record_def)
  have s1: "create_request t0 newId L b d0
           = ((200, RequestCreated newId ''Payment request created successfully'' (newId, rec0)), d1)"
    using names none
    by (simp add: create_request_def create_eq Let_def b_def rec0_def d1_def or_zero_def digit_def
        request_record_def payment_data.defs payment.defs)
  have amt: "ir_amount (pay_request newId rec0) = Num 100000"
    by (simp add: pay_request_def rec0)
  have s2: "pay gw1 T newId d1 = ((200, ClientSecret (client_secret pin) (intent_id pin)), d2)"
    using created
    by (simp add: pay_def pay_new_intent_def d1_def d2_def rec0 updateStripeIntentId_def
        doc_update_doc_set)
  have s3: "webhook gw2 t1 raw sig secret d2 = ((200, Received), d3)"
    using verified succeeded meta charge
    by (simp add: webhook_def updateStatus_def d2_def d3_def doc_update_doc_set updateData_def Let_def)
  have s4: "sync gw3 t2 v newId d3 = ((200, SyncReport ''No sync needed'' Paid False), d3)"
    using retrieved party iid
    by (auto simp: sync_def d3_def rec0)
  show ?thesis using s1 s2 s3 s4 amt rec0 by (simp add: d1_def d2_def d3_def)
qed

theorem scenario_create_pay_webhook_sync_witness:
  "sync (sample_gateway ''succeeded'' ''payment_intent.succeeded'') 3 ''T'' ''p1''
     (snd (webhook (sample_gateway ''succeeded'' ''payment_intent.succeeded'') 2 ''{}''
             (Some ''sig'') (Some ''whsec'')
        (snd (pay (sample_gateway ''requires_payment_method'' ''x'') ''T'' ''p1''
           (snd (create_request 1 ''p1'' ''L'' (sample_body 1000 0) \<lparr>payments = [], leases = []\<rparr>))))))
   = ((200, SyncReport ''No sync needed'' Paid False),
      \<lparr>payments =
         [(''p1'', (request_record 1 ''L'' ''T'' ''P'' ''2025-03'' (Num 1000) (Num 0) (Num 0)
                     ''Payment for 2025-03'' True)
                   \<lparr>stripePaymentIntentId := Some ''pi1'', status := Paid,
                    stripeChargeId := Some ''ch1'', paidAt := Some 2\<rparr>)],
       leases = []\<rparr>)"
proof -
  let ?g1 = "sample_gateway ''requires_payment_method'' ''x''"
  let ?g2 = "sample_gateway ''succeeded'' ''payment_intent.succeeded''"
  have h: "paymentIntents_create ?g1 rq = Inr (sample_intent ''requires_payment_method'')"
    "constructEvent ?g2 ''{}'' (Some ''sig'') (Some ''whsec'')
       = Inr \<lparr>event_type = ''payment_intent.succeeded'', event_object = sample_intent ''succeeded''\<rparr>"
    "paymentIntents_retrieve ?g2 i = Inr (sample_intent ''succeeded'')" for rq i
    by (simp_all add: sample_gateway_def)
  have i: "intent_id (sample_intent st) = ''pi1''" "client_secret (sample_intent st) = ''cs1''"
    "metadata_paymentId (sample_intent st) = Some ''p1''" "charges (sample_intent st) = Some [''ch1'']"
    for st
    by (simp_all add: sample_intent_def)
  note t = scenario_create_pay_webhook_sync [where T = "''T''" and P = "''P''" and L = "''L''"
      and ?d0.0 = "\<lparr>payments = [], leases = []\<rparr>" and ?gw1.0 = ?g1 and ?gw2.0 = ?g2 and ?gw3.0 = ?g2
      and newId = "''p1''" and pin = "sample_intent ''requires_payment_method''"
      and raw = "''{}''" and sig = "Some ''sig''" and secret = "Some ''whsec''"
      and ev = "\<lparr>event_type = ''payment_intent.succeeded'', event_object = sample_intent ''succeeded''\<rparr>"
      and c = "''ch1''" and cs = "[]" and pin' = "sample_intent ''succeeded''" and v = "''T''"
      and desc = None and ?t0.0 = 1 and ?t1.0 = 2 and ?t2.0 = 3]
  from t show ?thesis
    by (simp add: h i sample_body_def hasExistingPayments_def)
qed

section \<open>Checks before writes\<close>








end
